theory Spec2Isabelle
  imports Main
begin

section \<open>The termninja server (core/termninja/server.py)\<close>

text \<open>
  The server is an asyncio program. Each coroutine of \<^verbatim>\<open>server.py\<close> becomes a function
  on an explicit world; an exception is the \<open>Inl\<close> of the result. The collaborators that
  are not part of \<^verbatim>\<open>server.py\<close> (the \<^verbatim>\<open>Player\<close> stream wrapper, the \<^verbatim>\<open>db\<close> package,
  \<^verbatim>\<open>cursor\<close>, \<^verbatim>\<open>slugify\<close>, the asyncio library) are parameters: every call into them is
  recorded in the world, and whether it raises, and what it returns, is decided by an
  environment that may depend on everything that happened before. Output written with
  \<^verbatim>\<open>print\<close> is not part of the world.
\<close>

subsection \<open>Data\<close>

type_synonym player = nat
  \<comment> \<open>a \<^verbatim>\<open>Player(reader, writer)\<close> object, named by the connection it wraps\<close>

datatype exn = ConnectionResetError | CancelledError | AttributeError | OtherError

record user =
  username :: string
  score :: int
  play_token_expires_at :: int

type_synonym game_fields = "string \<times> string \<times> int"
  \<comment> \<open>the dict with keys \<^verbatim>\<open>server_name\<close>, \<^verbatim>\<open>description\<close>, \<^verbatim>\<open>port\<close>\<close>

datatype call =
    Send player string
  | Readline player
  | Close player
  | DbConnect
  | DbDisconnect
  | SelectByPlayToken string
  | CreateOrUpdateGame string game_fields
  | UpdateGame string
  | Sleep nat
  | Gather

datatype signame = SIGINT | SIGTERM

datatype phase = Running | TearingDown

datatype coro =
    StartServing phase
  | ServerTask
  | StartGameTask
  | LaunchGame "player list"
  | ControllerStart string "player list" string
  | UpdateDatabaseTask

record task =
  coro :: coro
  cancel_requested :: bool
  finished :: bool

record world =
  calls :: "call list"
  player_queue :: "player list"
  tasks :: "task list"
  db_user :: "player \<rightharpoonup> user"
  signal_handlers :: "signame \<rightharpoonup> signame"

record env =
  raises :: "call list \<Rightarrow> call \<Rightarrow> exn option"
  line :: "call list \<Rightarrow> player \<Rightarrow> string"
  users :: "string \<rightharpoonup> user"
  clock :: "call list \<Rightarrow> int"
  slugify :: "string \<Rightarrow> string"

record cursor =
  up :: "nat \<Rightarrow> string"
  move_to_column :: "nat \<Rightarrow> string"
  ERASE_TO_LINE_END :: string
  green :: "string \<Rightarrow> string"
  red :: "string \<Rightarrow> string"

text \<open>
  The attributes of a server object. \<open>friendly_name\<close> and \<open>get_friendly_name\<close> are
  attributes that \<^verbatim>\<open>server.py\<close> reads but that none of its classes defines: they are
  \<open>None\<close> unless a subclass adds them (\<open>get_friendly_name\<close> holds what such a method
  would return). \<open>welcome_message\<close> and \<open>continuation_message\<close> are the class attributes
  built from \<^verbatim>\<open>cursor\<close>.
\<close>

record server =
  class_name :: string
  friendly_name :: "string option"
  get_friendly_name :: "string option"
  controller_class :: string
  player_count :: nat
  description :: string
  port :: int
  welcome_message :: string
  continuation_message :: string
  ping_database_interval :: nat

type_synonym 'a io = "world \<Rightarrow> (exn + 'a) \<times> world"

record hooks =
  on_server_started :: "unit io"
  on_player_connected :: "player \<Rightarrow> unit io"
  should_accept_player :: "player \<Rightarrow> bool io"
  on_player_accepted :: "player \<Rightarrow> unit io"
  on_player_rejected :: "player \<Rightarrow> unit io"

subsection \<open>Sequencing, and the calls into the collaborators\<close>

definition returns :: "'a \<Rightarrow> 'a io" where
  "returns x w = (Inr x, w)"

definition bind_io :: "'a io \<Rightarrow> ('a \<Rightarrow> 'b io) \<Rightarrow> 'b io" where
  "bind_io m f w = (case m w of (Inl e, w') \<Rightarrow> (Inl e, w') | (Inr x, w') \<Rightarrow> f x w')"

definition perform :: "env \<Rightarrow> call \<Rightarrow> unit io" where
  "perform E c w =
     ((case raises E (calls w) c of Some e \<Rightarrow> Inl e | None \<Rightarrow> Inr ()),
      w\<lparr>calls := calls w @ [c]\<rparr>)"

definition send :: "env \<Rightarrow> player \<Rightarrow> string \<Rightarrow> unit io" where
  "send E p msg = perform E (Send p msg)"

definition readline :: "env \<Rightarrow> player \<Rightarrow> string io" where
  "readline E p w = bind_io (perform E (Readline p)) (\<lambda>_. returns (line E (calls w) p)) w"

definition close :: "env \<Rightarrow> player \<Rightarrow> unit io" where
  "close E p = perform E (Close p)"

definition assign_db_user :: "player \<Rightarrow> user \<Rightarrow> unit io" where
  "assign_db_user p u w = (Inr (), w\<lparr>db_user := (db_user w)(p \<mapsto> u)\<rparr>)"

definition select_by_play_token :: "env \<Rightarrow> string \<Rightarrow> (user option) io" where
  "select_by_play_token E token =
     bind_io (perform E (SelectByPlayToken token)) (\<lambda>_. returns (users E token))"

definition queue_put :: "player \<Rightarrow> unit io" where
  "queue_put p w = (Inr (), w\<lparr>player_queue := player_queue w @ [p]\<rparr>)"

definition create_task :: "coro \<Rightarrow> unit io" where
  "create_task c w =
     (Inr (), w\<lparr>tasks := tasks w @ [\<lparr>coro = c, cancel_requested = False, finished = False\<rparr>]\<rparr>)"

subsection \<open>class Server: names and hooks\<close>

definition get_controller_class :: "server \<Rightarrow> string" where
  "get_controller_class self = controller_class self"

definition get_server_name :: "server \<Rightarrow> string" where
  "get_server_name self =
     (case friendly_name self of Some n \<Rightarrow> n | None \<Rightarrow> class_name self)"

definition Server_on_server_started :: "unit io" where
  "Server_on_server_started = returns ()"

definition Server_on_player_connected :: "env \<Rightarrow> server \<Rightarrow> player \<Rightarrow> unit io" where
  "Server_on_player_connected E self p = send E p (welcome_message self)"

definition Server_should_accept_player :: "player \<Rightarrow> bool io" where
  "Server_should_accept_player p = returns True"

definition Server_on_player_accepted :: "env \<Rightarrow> server \<Rightarrow> player \<Rightarrow> unit io" where
  "Server_on_player_accepted E self p =
     bind_io (send E p (continuation_message self)) (\<lambda>_.
     bind_io (readline E p) (\<lambda>_. returns ()))"

definition Server_on_player_rejected :: "player \<Rightarrow> unit io" where
  "Server_on_player_rejected p = returns ()"

definition Server_hooks :: "env \<Rightarrow> server \<Rightarrow> hooks" where
  "Server_hooks E self =
     \<lparr>on_server_started = Server_on_server_started,
      on_player_connected = Server_on_player_connected E self,
      should_accept_player = Server_should_accept_player,
      on_player_accepted = Server_on_player_accepted E self,
      on_player_rejected = Server_on_player_rejected\<rparr>"

subsection \<open>The acceptor: \<^verbatim>\<open>_on_connection\<close> and \<^verbatim>\<open>_accept_player\<close>\<close>

definition accept_player :: "env \<Rightarrow> hooks \<Rightarrow> player \<Rightarrow> unit io" where
  "accept_player E H p =
     bind_io (should_accept_player H p) (\<lambda>ok.
       if ok then bind_io (on_player_accepted H p) (\<lambda>_. queue_put p)
       else bind_io (on_player_rejected H p) (\<lambda>_. close E p))"

definition connection_pipeline :: "env \<Rightarrow> hooks \<Rightarrow> player \<Rightarrow> unit io" where
  "connection_pipeline E H p =
     bind_io (on_player_connected H p) (\<lambda>_. accept_player E H p)"

definition on_connection :: "env \<Rightarrow> hooks \<Rightarrow> player \<Rightarrow> unit io" where
  "on_connection E H p w =
     (case connection_pipeline E H p w of
        (Inl ConnectionResetError, w') \<Rightarrow> close E p w'
      | r \<Rightarrow> r)"


subsection \<open>The matchmaker: \<^verbatim>\<open>_start_game_task\<close> and \<^verbatim>\<open>_launch_game\<close>\<close>

text \<open>
  One step of the \<^verbatim>\<open>while True\<close> loop of \<^verbatim>\<open>_start_game_task\<close>, for
  \<open>pc = self.player_count\<close>. \<open>acc\<close> is the list the
  comprehension has built so far. While it is shorter than \<open>player_count\<close> the next
  \<^verbatim>\<open>await self._player_queue.get()\<close> runs: it takes the head of the queue, or suspends
  (\<open>None\<close>) when the queue is empty. Once the comprehension is complete the task for
  \<^verbatim>\<open>_launch_game(*acc)\<close> is created and the loop starts again.
\<close>

fun start_game_task_step :: "nat \<Rightarrow> player list \<times> world \<Rightarrow> (player list \<times> world) option" where
  "start_game_task_step pc (acc, w) =
     (if length acc < pc then
        (case player_queue w of
           [] \<Rightarrow> None
         | p # q \<Rightarrow> Some (acc @ [p], w\<lparr>player_queue := q\<rparr>))
      else Some ([], snd (create_task (LaunchGame acc) w)))"

text \<open>
  A schedule interleaves the acceptor's \<^verbatim>\<open>put\<close> of an accepted session with turns of
  the matchmaker; a turn of a suspended matchmaker changes nothing. A turn is one step
  of the loop: the event loop lets the matchmaker take several in a row, until it
  suspends, so every schedule of the event loop is one of these.
\<close>

datatype event = Arrive player | Tick

fun exec :: "nat \<Rightarrow> event \<Rightarrow> player list \<times> world \<Rightarrow> player list \<times> world" where
  "exec pc (Arrive p) (acc, w) = (acc, snd (queue_put p w))"
| "exec pc Tick s = (case start_game_task_step pc s of None \<Rightarrow> s | Some s' \<Rightarrow> s')"

definition run :: "nat \<Rightarrow> event list \<Rightarrow> player list \<times> world \<Rightarrow> player list \<times> world" where
  "run pc evs s = fold (exec pc) evs s"

fun arrivals :: "event list \<Rightarrow> player list" where
  "arrivals [] = []"
| "arrivals (Arrive p # evs) = p # arrivals evs"
| "arrivals (Tick # evs) = arrivals evs"

fun batches :: "task list \<Rightarrow> player list list" where
  "batches [] = []"
| "batches (t # ts) = (case coro t of LaunchGame b \<Rightarrow> b # batches ts | _ \<Rightarrow> batches ts)"

definition blocked :: "nat \<Rightarrow> player list \<times> world \<Rightarrow> bool" where
  "blocked pc s = (start_game_task_step pc s = None)"

definition slices :: "nat \<Rightarrow> 'a list \<Rightarrow> 'a list list" where
  "slices pc ps = map (\<lambda>i. take pc (drop (i * pc) ps)) [0..<length ps div pc]"

definition world0 :: world where
  "world0 = \<lparr>calls = [], player_queue = [], tasks = [],
             db_user = Map.empty, signal_handlers = Map.empty\<rparr>"

definition idle :: "player list \<times> world" where
  "idle = ([], world0)"

definition launch_game :: "server \<Rightarrow> player list \<Rightarrow> unit io" where
  "launch_game self players w =
     (let controller_class = get_controller_class self in
      case get_friendly_name self of
        None \<Rightarrow> (Inl AttributeError, w)
      | Some name \<Rightarrow> create_task (ControllerStart controller_class players name) w)"

text \<open>
  An instance of \<open>TermninjaServer\<close>, with the class attributes of \<open>Server\<close> and the
  default port; two short strings stand for the banner and for the continuation
  message.
\<close>

definition TermninjaServer :: server where
  "TermninjaServer =
     \<lparr>class_name = ''TermninjaServer'', friendly_name = None, get_friendly_name = None,
      controller_class = ''Controller'', player_count = 1, description = [],
      port = 3000, welcome_message = ''Termninja'',
      continuation_message = ''Press enter to get started...'',
      ping_database_interval = 2 * 60\<rparr>"

subsection \<open>The lifecycle: \<^verbatim>\<open>_start_serving\<close> and the stop signals\<close>

definition register_signal_handlers :: "unit io" where
  "register_signal_handlers w =
     (Inr (), w\<lparr>signal_handlers := (signal_handlers w)(SIGINT \<mapsto> SIGINT, SIGTERM \<mapsto> SIGTERM)\<rparr>)"

definition initialize :: "env \<Rightarrow> unit io" where
  "initialize E =
     bind_io (perform E DbConnect) (\<lambda>_ w. (Inr (), w\<lparr>player_queue := []\<rparr>))"

definition teardown :: "env \<Rightarrow> unit io" where
  "teardown E = perform E DbDisconnect"

text \<open>
  The body of the \<^verbatim>\<open>try\<close> of \<^verbatim>\<open>_start_serving\<close>. The two core tasks never return, so
  the \<^verbatim>\<open>await asyncio.gather(...)\<close> ends by raising: \<open>CancelledError\<close> when the task is
  cancelled, or the exception of the core task that failed. The environment decides.
\<close>

definition serving :: "env \<Rightarrow> hooks \<Rightarrow> unit io" where
  "serving E H =
     bind_io (create_task ServerTask) (\<lambda>_.
     bind_io (create_task StartGameTask) (\<lambda>_.
     bind_io (on_server_started H) (\<lambda>_.
     perform E Gather)))"

text \<open>
  \<^verbatim>\<open>try: ... except asyncio.CancelledError: pass finally: await self._teardown()\<close>:
  the teardown runs whatever the body did, and an exception it raises replaces the
  outcome of the body.
\<close>

definition try_serving :: "env \<Rightarrow> hooks \<Rightarrow> unit io" where
  "try_serving E H w =
     (case serving E H w of (r, w') \<Rightarrow>
        (case teardown E w' of
           (Inl e, w'') \<Rightarrow> (Inl e, w'')
         | (Inr _, w'') \<Rightarrow> ((case r of Inl CancelledError \<Rightarrow> Inr () | _ \<Rightarrow> r), w'')))"

definition start_serving :: "env \<Rightarrow> hooks \<Rightarrow> unit io" where
  "start_serving E H =
     bind_io register_signal_handlers (\<lambda>_.
     bind_io (initialize E) (\<lambda>_.
     try_serving E H))"

text \<open>
  \<^verbatim>\<open>asyncio.Task.all_tasks()\<close> is the set of the tasks of the loop that are not done,
  and \<^verbatim>\<open>task.cancel()\<close> requests the cancellation of a task that is not done: the
  event loop throws \<open>CancelledError\<close> into it at the \<^verbatim>\<open>await\<close> where it is suspended.
\<close>

definition all_tasks :: "world \<Rightarrow> task list" where
  "all_tasks w = filter (\<lambda>t. \<not> finished t) (tasks w)"

definition cancel :: "task \<Rightarrow> task" where
  "cancel t = (if finished t then t else t\<lparr>cancel_requested := True\<rparr>)"

definition handle_stop_signal :: "signame \<Rightarrow> world \<Rightarrow> world" where
  "handle_stop_signal signal w =
     w\<lparr>tasks := map (\<lambda>t. if t \<in> set (all_tasks w) then cancel t else t) (tasks w)\<rparr>"

definition receive_signal :: "signame \<Rightarrow> world \<Rightarrow> world" where
  "receive_signal sig w =
     (case signal_handlers w sig of
        None \<Rightarrow> w
      | Some signame \<Rightarrow> handle_stop_signal signame w)"

text \<open>
  What a task does when the event loop throws the requested \<open>CancelledError\<close> into it.
  \<^verbatim>\<open>_start_serving\<close>, suspended in its \<^verbatim>\<open>try\<close>, catches it and suspends again in
  \<^verbatim>\<open>await self._teardown()\<close>; thrown into that \<^verbatim>\<open>finally\<close>, it ends the task. No other
  coroutine of \<^verbatim>\<open>server.py\<close> catches it.
\<close>

definition throw_cancelled :: "task \<Rightarrow> task" where
  "throw_cancelled t =
     (if finished t \<or> \<not> cancel_requested t then t
      else (case coro t of
              StartServing Running \<Rightarrow> t\<lparr>coro := StartServing TearingDown, cancel_requested := False\<rparr>
            | _ \<Rightarrow> t\<lparr>cancel_requested := False, finished := True\<rparr>))"

definition deliver_cancellations :: "world \<Rightarrow> world" where
  "deliver_cancellations w = w\<lparr>tasks := map throw_cancelled (tasks w)\<rparr>"

subsection \<open>class OptionalAuthenticationMixin\<close>

definition enter_token_prompt :: string where
  "enter_token_prompt = ''Enter a token to track score or press enter to play anonymously: ''"

definition erase_input :: "cursor \<Rightarrow> string" where
  "erase_input C = up C 1 @ move_to_column C (length enter_token_prompt) @ ERASE_TO_LINE_END C"

definition token_accepted_message :: "cursor \<Rightarrow> string" where
  "token_accepted_message C = erase_input C @ green C '' accepted'' @ [CHR 0x0A]"

definition token_rejected_message :: "cursor \<Rightarrow> string" where
  "token_rejected_message C = erase_input C @ red C '' rejected'' @ [CHR 0x0A]"

definition token_expired_message :: "cursor \<Rightarrow> string" where
  "token_expired_message C = erase_input C @ red C '' token expired'' @ [CHR 0x0A]"

definition token_is_expired :: "env \<Rightarrow> int \<Rightarrow> bool io" where
  "token_is_expired E expiration_datetime w = (Inr (expiration_datetime < clock E (calls w)), w)"

definition OptionalAuthenticationMixin_should_accept_player ::
  "env \<Rightarrow> cursor \<Rightarrow> player \<Rightarrow> bool io" where
  "OptionalAuthenticationMixin_should_accept_player E C p =
     bind_io (send E p enter_token_prompt) (\<lambda>_.
     bind_io (readline E p) (\<lambda>token.
       if token = [] then returns True
       else
         bind_io (select_by_play_token E token) (\<lambda>user.
           case user of
             None \<Rightarrow> bind_io (send E p (token_rejected_message C)) (\<lambda>_. returns False)
           | Some u \<Rightarrow>
               bind_io (token_is_expired E (play_token_expires_at u)) (\<lambda>expired.
                 if expired then
                   bind_io (send E p (token_expired_message C)) (\<lambda>_. returns False)
                 else
                   bind_io (send E p (token_accepted_message C)) (\<lambda>_.
                   bind_io (assign_db_user p u) (\<lambda>_. returns True))))))"

subsection \<open>class PingDatabaseMixin\<close>

definition sleep :: "env \<Rightarrow> nat \<Rightarrow> unit io" where
  "sleep E delay = perform E (Sleep delay)"

definition ping_database :: "env \<Rightarrow> string \<Rightarrow> unit io" where
  "ping_database E slug = perform E (UpdateGame slug)"

text \<open>
  The \<^verbatim>\<open>while True\<close> loop of \<^verbatim>\<open>_update_database_task\<close>, for a number of rounds. It has
  no \<^verbatim>\<open>break\<close>: it ends with the exception of a call that raises (\<open>Some\<close>), or is still
  running after the rounds given (\<open>None\<close>).
\<close>

fun ping_loop :: "env \<Rightarrow> server \<Rightarrow> string \<Rightarrow> nat \<Rightarrow> world \<Rightarrow> exn option \<times> world" where
  "ping_loop E self slug 0 w = (None, w)"
| "ping_loop E self slug (Suc n) w =
     (case ping_database E slug w of
        (Inl e, w') \<Rightarrow> (Some e, w')
      | (Inr _, w') \<Rightarrow>
          (case sleep E (ping_database_interval self) w' of
             (Inl e, w'') \<Rightarrow> (Some e, w'')
           | (Inr _, w'') \<Rightarrow> ping_loop E self slug n w''))"

definition update_database_task :: "env \<Rightarrow> server \<Rightarrow> nat \<Rightarrow> world \<Rightarrow> exn option \<times> world" where
  "update_database_task E self n w =
     (let server_name = get_server_name self;
          slug = slugify E server_name
      in case perform E (CreateOrUpdateGame slug (server_name, description self, port self)) w of
           (Inl e, w') \<Rightarrow> (Some e, w')
         | (Inr _, w') \<Rightarrow> ping_loop E self slug n w')"

text \<open>\<open>super\<close> is the hooks of the classes that follow the mixin.\<close>

definition PingDatabaseMixin_on_server_started :: "hooks \<Rightarrow> unit io" where
  "PingDatabaseMixin_on_server_started super =
     bind_io (create_task UpdateDatabaseTask) (\<lambda>_. on_server_started super)"

subsection \<open>Environments and worlds to evaluate on\<close>

definition quiet :: env where
  "quiet = \<lparr>raises = (\<lambda>_ _. None), line = (\<lambda>_ _. []), users = Map.empty,
            clock = (\<lambda>_. 0), slugify = id\<rparr>"

definition plain :: cursor where
  "plain = \<lparr>up = (\<lambda>_. []), move_to_column = (\<lambda>_. []), ERASE_TO_LINE_END = [],
            green = id, red = id\<rparr>"

text \<open>
  \<open>typing tok\<close>: no call raises and every line read is \<open>tok\<close>. \<open>token_hooks\<close>: the
  hooks of \<open>Server\<close> with the \<open>should_accept_player\<close> of the authentication mixin in
  front.
\<close>

definition typing :: "string \<Rightarrow> env" where
  "typing tok = quiet\<lparr>line := (\<lambda>_ _. tok)\<rparr>"

definition token_hooks :: "env \<Rightarrow> cursor \<Rightarrow> server \<Rightarrow> hooks" where
  "token_hooks E C self =
     (Server_hooks E self)\<lparr>should_accept_player := OptionalAuthenticationMixin_should_accept_player E C\<rparr>"

text \<open>
  \<open>registered tok u now\<close>: every line read is \<open>tok\<close>, the token of the user \<open>u\<close>, and
  the clock shows \<open>now\<close>.
\<close>

definition alice :: user where
  "alice = \<lparr>username = ''alice'', score = 10, play_token_expires_at = 100\<rparr>"

definition registered :: "string \<Rightarrow> user \<Rightarrow> int \<Rightarrow> env" where
  "registered tok u now =
     quiet\<lparr>line := (\<lambda>_ _. tok), users := [tok \<mapsto> u], clock := (\<lambda>_. now)\<rparr>"

text \<open>
  \<open>failing c e\<close>: the call \<open>c\<close> raises \<open>e\<close>. \<open>serving_world\<close>: a running
  \<open>TermninjaServer\<close>, with its signal handlers registered, the task of
  \<^verbatim>\<open>_start_serving\<close> suspended in its \<^verbatim>\<open>try\<close>, and the tasks of the acceptor, the
  matchmaker and the heartbeat.
\<close>

definition failing :: "call \<Rightarrow> exn \<Rightarrow> env" where
  "failing c e = quiet\<lparr>raises := (\<lambda>_ c'. if c' = c then Some e else None)\<rparr>"

definition new_task :: "coro \<Rightarrow> task" where
  "new_task c = \<lparr>coro = c, cancel_requested = False, finished = False\<rparr>"

definition serving_world :: world where
  "serving_world =
     world0\<lparr>tasks := map new_task
               [StartServing Running, ServerTask, StartGameTask, UpdateDatabaseTask],
            signal_handlers := [SIGINT \<mapsto> SIGINT, SIGTERM \<mapsto> SIGTERM]\<rparr>"

text \<open>
  \<open>raise_io e\<close>: a hook that raises \<open>e\<close>. \<open>broken_hooks\<close>: the \<open>token_hooks\<close> of a
  subclass whose \<open>on_player_rejected\<close> raises an error of its own. \<open>typing_failing\<close>:
  every line read is \<open>tok\<close> and the call \<open>c\<close> raises \<open>e\<close>. \<open>cancelled_at cs\<close>: the task is
  cancelled while it awaits one of the calls \<open>cs\<close>.
\<close>

definition raise_io :: "exn \<Rightarrow> 'a io" where
  "raise_io e w = (Inl e, w)"

definition broken_hooks :: "env \<Rightarrow> cursor \<Rightarrow> server \<Rightarrow> hooks" where
  "broken_hooks E C self = (token_hooks E C self)\<lparr>on_player_rejected := (\<lambda>p. raise_io OtherError)\<rparr>"

definition typing_failing :: "string \<Rightarrow> call \<Rightarrow> exn \<Rightarrow> env" where
  "typing_failing tok c e = (failing c e)\<lparr>line := (\<lambda>_ _. tok)\<rparr>"

definition cancelled_at :: "call list \<Rightarrow> env" where
  "cancelled_at cs = quiet\<lparr>raises := (\<lambda>_ c. if c \<in> set cs then Some CancelledError else None)\<rparr>"

subsection \<open>Invariant and measure of the matchmaker\<close>

definition mm_inv :: "nat \<Rightarrow> player list \<Rightarrow> player list \<times> world \<Rightarrow> bool" where
  "mm_inv pc ps s =
     (concat (batches (tasks (snd s))) @ fst s @ player_queue (snd s) = ps
      \<and> list_all (\<lambda>b. length b = pc) (batches (tasks (snd s)))
      \<and> length (fst s) \<le> pc)"

definition potential :: "nat \<Rightarrow> player list \<times> world \<Rightarrow> nat" where
  "potential pc s = 2 * length (player_queue (snd s)) + (if length (fst s) < pc then 0 else 1)"

section \<open>Properties\<close>

subsection \<open>Helper lemmas: the matchmaker\<close>

lemma batches_append: "batches (ts @ us) = batches ts @ batches us"
  by (induction ts) (auto split: coro.splits)

lemma arrivals_append: "arrivals (xs @ ys) = arrivals xs @ arrivals ys"
  by (induction xs rule: arrivals.induct) auto

lemma mm_inv_exec:
  "mm_inv pc ps s \<Longrightarrow> mm_inv pc (ps @ arrivals [e]) (exec pc e s)"
  by (cases e; cases s)
     (auto simp: mm_inv_def queue_put_def create_task_def batches_append
           split: list.splits)

lemma mm_inv_run:
  "mm_inv pc ps s \<Longrightarrow> mm_inv pc (ps @ arrivals evs) (run pc evs s)"
proof (induction evs arbitrary: ps s)
  case Nil
  then show ?case by (simp add: run_def)
next
  case (Cons e evs)
  have "mm_inv pc ((ps @ arrivals [e]) @ arrivals evs) (run pc evs (exec pc e s))"
    by (rule Cons.IH [OF mm_inv_exec [OF Cons.prems]])
  moreover have "arrivals (e # evs) = arrivals [e] @ arrivals evs"
    using arrivals_append [of "[e]" evs] by simp
  ultimately show ?case by (simp add: run_def)
qed

lemma slices_concat:
  assumes "list_all (\<lambda>b. length b = pc) bs" and "0 < pc" and "length r < pc"
  shows "slices pc (concat bs @ r) = bs \<and> length (concat bs @ r) div pc = length bs
         \<and> drop (pc * length bs) (concat bs @ r) = r"
  using assms
proof (induction bs)
  case Nil
  then show ?case by (simp add: slices_def)
next
  case (Cons b bs)
  then have lb: "length b = pc" and rest: "list_all (\<lambda>b. length b = pc) bs" by simp_all
  have IH: "slices pc (concat bs @ r) = bs" "length (concat bs @ r) div pc = length bs"
    "drop (pc * length bs) (concat bs @ r) = r"
    using Cons.IH [OF rest Cons.prems(2,3)] by simp_all
  have len: "length (concat (b # bs) @ r) div pc = Suc (length bs)"
    using IH(2) lb Cons.prems(2) by (simp add: div_add_self1)
  have "slices pc (concat (b # bs) @ r) =
        map (\<lambda>i. take pc (drop (i * pc) (b @ concat bs @ r))) [0..<Suc (length bs)]"
    unfolding slices_def len by simp
  also have "[0..<Suc (length bs)] = 0 # map Suc [0..<length bs]"
    by (simp add: upt_conv_Cons map_Suc_upt del: upt_Suc)
  also have "map (\<lambda>i. take pc (drop (i * pc) (b @ concat bs @ r))) (0 # map Suc [0..<length bs])
        = b # map (\<lambda>i. take pc (drop (i * pc) (concat bs @ r))) [0..<length bs]"
    using lb by (simp add: comp_def)
  also have "\<dots> = b # bs" using IH(1,2) by (simp add: slices_def)
  finally have "slices pc (concat (b # bs) @ r) = b # bs" .
  moreover have "drop (pc * length (b # bs)) (concat (b # bs) @ r) = r"
    using IH(3) lb by simp
  ultimately show ?case using len by simp
qed

lemma potential_zero_blocked: "0 < pc \<Longrightarrow> potential pc s = 0 \<Longrightarrow> blocked pc s"
  by (cases s) (auto simp: potential_def blocked_def split: if_splits)

lemma potential_tick:
  "0 < pc \<Longrightarrow> potential pc (exec pc Tick s) \<le> potential pc s - 1"
  by (cases s) (auto simp: potential_def create_task_def split: list.splits)

lemma ticks_block:
  "0 < pc \<Longrightarrow> potential pc s \<le> k \<Longrightarrow> blocked pc (run pc (replicate k Tick) s)"
proof (induction k arbitrary: s)
  case 0
  then show ?case by (simp add: run_def potential_zero_blocked)
next
  case (Suc k)
  have "potential pc (exec pc Tick s) \<le> k"
    using potential_tick [OF Suc.prems(1), of s] Suc.prems(2) by simp
  from Suc.IH [OF Suc.prems(1) this] show ?case by (simp add: run_def)
qed

lemma run_append: "run pc (xs @ ys) s = run pc ys (run pc xs s)"
  by (simp add: run_def)

lemma arrivals_ticks: "arrivals (replicate k Tick) = []"
  by (induction k) auto

lemma mm_inv_idle: "mm_inv pc [] idle"
  by (simp add: mm_inv_def idle_def world0_def)

subsection \<open>C1: the batches of the matchmaker\<close>

text \<open>
  C1 (as amended). Let \<open>player_count\<close> be at least 1. Whatever the interleaving of the
  arrivals of N accepted sessions with the turns of the matchmaker, once the matchmaker
  has run until it suspends it has created exactly \<open>N div player_count\<close> launch tasks;
  the i-th batch is the i-th run of \<open>player_count\<close> consecutive sessions in arrival
  order (so each batch has \<open>player_count\<close> sessions, no session is in two batches and
  none is skipped). The sessions beyond the last full batch are not launched and not
  lost: the matchmaker has already taken them from the queue into the batch it is
  building, in arrival order, and the queue itself is empty.
\<close>

theorem start_game_task_batches:
  assumes "0 < pc"
  shows "let ps = arrivals evs;
             s = run pc (evs @ replicate (2 * length ps + 1) Tick) idle
         in blocked pc s
            \<and> batches (tasks (snd s)) = slices pc ps
            \<and> length (batches (tasks (snd s))) = length ps div pc
            \<and> list_all (\<lambda>b. length b = pc) (batches (tasks (snd s)))
            \<and> fst s = drop (pc * (length ps div pc)) ps
            \<and> player_queue (snd s) = []"
proof -
  define ps where "ps = arrivals evs"
  define s1 where "s1 = run pc evs idle"
  define s where "s = run pc (replicate (2 * length ps + 1) Tick) s1"
  have inv1: "mm_inv pc ps s1"
    using mm_inv_run [OF mm_inv_idle, of pc evs] by (simp add: ps_def s1_def)
  then have "length (player_queue (snd s1)) \<le> length ps"
    by (auto simp: mm_inv_def)
  then have "potential pc s1 \<le> 2 * length ps + 1"
    by (simp add: potential_def)
  then have blk: "blocked pc s"
    unfolding s_def by (rule ticks_block [OF assms])
  have inv: "mm_inv pc ps s"
    using mm_inv_run [OF inv1, of "replicate (2 * length ps + 1) Tick"]
    by (simp add: s_def arrivals_ticks)
  obtain acc w where sw: "s = (acc, w)" by (cases s)
  from blk sw assms have q: "player_queue w = []" and small: "length acc < pc"
    by (auto simp: blocked_def split: if_splits list.splits)
  from inv sw q have cat: "concat (batches (tasks w)) @ acc = ps"
    and all: "list_all (\<lambda>b. length b = pc) (batches (tasks w))"
    by (simp_all add: mm_inv_def)
  from slices_concat [OF all assms small] cat
  have "slices pc ps = batches (tasks w)" "length ps div pc = length (batches (tasks w))"
       "drop (pc * length (batches (tasks w))) ps = acc"
    by simp_all
  then have res: "blocked pc s \<and> batches (tasks (snd s)) = slices pc ps
            \<and> length (batches (tasks (snd s))) = length ps div pc
            \<and> list_all (\<lambda>b. length b = pc) (batches (tasks (snd s)))
            \<and> fst s = drop (pc * (length ps div pc)) ps
            \<and> player_queue (snd s) = []"
    using blk all q sw by simp
  have "s = run pc (evs @ replicate (2 * length ps + 1) Tick) idle"
    by (simp add: s_def s1_def run_append)
  with res show ?thesis
    unfolding Let_def ps_def by blast
qed

text \<open>
  With \<open>player_count = 2\<close> and three accepted sessions, one batch \<open>[1, 2]\<close> is launched
  and session 3 waits in the batch under construction.
\<close>

theorem start_game_task_batches_witness:
  "(0::nat) < 2
   \<and> blocked 2 (run 2 ([Arrive 1, Arrive 2, Arrive 3] @ replicate 7 Tick) idle)
   \<and> batches (tasks (snd (run 2 ([Arrive 1, Arrive 2, Arrive 3] @ replicate 7 Tick) idle))) = [[1, 2]]
   \<and> fst (run 2 ([Arrive 1, Arrive 2, Arrive 3] @ replicate 7 Tick) idle) = [3]"
proof -
  have sl: "slices 2 [1, 2, 3::nat] = [[1, 2]]" by code_simp
  have dr: "drop (2 * (length [1, 2, 3::nat] div 2)) [1, 2, 3::nat] = [3]" by code_simp
  have k: "2 * length (arrivals [Arrive 1, Arrive 2, Arrive 3]) + 1 = 7" by simp
  show ?thesis
    using start_game_task_batches [of 2 "[Arrive 1, Arrive 2, Arrive 3]"]
    unfolding Let_def k using sl dr by simp
qed

text \<open>
  C1 as stated says that the sessions beyond the last full batch remain queued. With
  \<open>player_count = 2\<close> and three sessions, session 3 is no longer in the queue when the
  matchmaker suspends: \<^verbatim>\<open>await self._player_queue.get()\<close> has removed it.
\<close>

theorem leftover_session_not_queued:
  "player_queue (snd (run 2 ([Arrive 1, Arrive 2, Arrive 3] @ replicate 7 Tick) idle)) \<noteq> [3]
   \<and> fst (run 2 ([Arrive 1, Arrive 2, Arrive 3] @ replicate 7 Tick) idle) = [3]"
  by (simp add: run_def idle_def world0_def queue_put_def create_task_def eval_nat_numeral)

subsection \<open>Helper lemmas: sequencing and evaluation\<close>

lemma quiet_simps: "raises quiet h c = None" "line quiet h p = []" "users quiet = Map.empty"
  by (simp_all add: quiet_def)

lemma typing_simps: "raises (typing tok) h c = None" "line (typing tok) h p = tok"
  "users (typing tok) = Map.empty"
  by (simp_all add: typing_def quiet_def)

lemmas io_defs = bind_io_def returns_def perform_def send_def readline_def close_def
  queue_put_def select_by_play_token_def assign_db_user_def create_task_def
  token_is_expired_def

lemmas Server_defs = Server_hooks_def Server_on_player_connected_def
  Server_should_accept_player_def Server_on_player_accepted_def Server_on_player_rejected_def
  Server_on_server_started_def

lemma registered_simps:
  "raises (registered tok u now) h c = None" "line (registered tok u now) h p = tok"
  "users (registered tok u now) = [tok \<mapsto> u]" "clock (registered tok u now) h = now"
  by (simp_all add: registered_def quiet_def)

lemma failing_raises: "raises (failing c e) h c' = (if c' = c then Some e else None)"
  by (simp add: failing_def quiet_def)

lemma ping_loop_quiet:
  "\<forall>h c. raises E h c = None \<Longrightarrow>
   ping_loop E self slug n w =
     (None, w\<lparr>calls := calls w @
        concat (replicate n [UpdateGame slug, Sleep (ping_database_interval self)])\<rparr>)"
  by (induction n arbitrary: w) (simp_all add: ping_database_def sleep_def perform_def)

lemma typing_failing_simps:
  "raises (typing_failing tok c e) h c' = (if c' = c then Some e else None)"
  "line (typing_failing tok c e) h p = tok" "users (typing_failing tok c e) = Map.empty"
  by (simp_all add: typing_failing_def failing_def quiet_def)

lemma cancelled_at_raises:
  "raises (cancelled_at cs) h c = (if c \<in> set cs then Some CancelledError else None)"
  by (simp add: cancelled_at_def quiet_def)

subsection \<open>C2: the put of an accepted session, the close of a rejected one\<close>

text \<open>
  C2 (as amended). Let the connected hook have returned. On a session for which
  \<open>should_accept_player\<close> returns true, once \<open>on_player_accepted\<close> has run to
  completion the acceptor puts the session on the queue exactly once and closes
  nothing; when that hook raises, the session is not put on the queue (and is closed
  once when the error is \<open>ConnectionResetError\<close>). On a session for which it returns false
  the acceptor never puts the session on the queue. When \<open>on_player_rejected\<close> returns,
  \<^verbatim>\<open>_accept_player\<close> closes the session, exactly once unless that \<open>close\<close> itself raises
  \<open>ConnectionResetError\<close>: then \<^verbatim>\<open>_on_connection\<close> closes it a second time. When
  \<open>on_player_rejected\<close> raises \<open>ConnectionResetError\<close> the session is closed exactly once,
  by \<^verbatim>\<open>_on_connection\<close>; when it raises another error the session is not closed.
\<close>

theorem acceptor_put_and_close:
  assumes "on_player_connected H p w0 = (Inr (), w)"
  shows
  "(should_accept_player H p w = (Inr True, w1) \<longrightarrow>
      (on_player_accepted H p w1 = (Inr (), w2) \<longrightarrow>
         accept_player E H p w = (Inr (), w2\<lparr>player_queue := player_queue w2 @ [p]\<rparr>)
         \<and> on_connection E H p w0 = (Inr (), w2\<lparr>player_queue := player_queue w2 @ [p]\<rparr>)
         \<and> count_list (player_queue (snd (on_connection E H p w0))) p
             = count_list (player_queue w2) p + 1
         \<and> calls (snd (on_connection E H p w0)) = calls w2)
      \<and> (on_player_accepted H p w1 = (Inl e, w2) \<longrightarrow>
         player_queue (snd (on_connection E H p w0)) = player_queue w2
         \<and> calls (snd (on_connection E H p w0))
             = calls w2 @ (if e = ConnectionResetError then [Close p] else [])))
   \<and> (should_accept_player H p w = (Inr False, w1) \<longrightarrow>
      (on_player_rejected H p w1 = (Inr (), w2) \<longrightarrow>
         accept_player E H p w = close E p w2
         \<and> player_queue (snd (on_connection E H p w0)) = player_queue w2
         \<and> calls (snd (on_connection E H p w0))
             = calls w2 @ (if raises E (calls w2) (Close p) = Some ConnectionResetError
                           then [Close p, Close p] else [Close p])
         \<and> (raises E (calls w2) (Close p) \<noteq> Some ConnectionResetError \<longrightarrow>
               count_list (calls (snd (on_connection E H p w0))) (Close p)
                 = count_list (calls w2) (Close p) + 1))
      \<and> (on_player_rejected H p w1 = (Inl e, w2) \<longrightarrow>
         player_queue (snd (on_connection E H p w0)) = player_queue w2
         \<and> calls (snd (on_connection E H p w0))
             = calls w2 @ (if e = ConnectionResetError then [Close p] else [])))"
  using assms
  by (auto simp: accept_player_def bind_io_def queue_put_def close_def perform_def
        on_connection_def connection_pipeline_def split: option.splits exn.splits)

text \<open>
  Four connections of player 0: accepted by the base hooks; accepted, with the peer
  resetting while the confirmation line is read; rejected for an unknown token;
  rejected, with a rejected hook that raises an error of its own.
\<close>

theorem acceptor_put_and_close_witness:
  "count_list (player_queue (snd (on_connection quiet (Server_hooks quiet TermninjaServer) 0 world0))) 0 = 1
   \<and> player_queue (snd (on_connection (failing (Readline 0) ConnectionResetError)
        (Server_hooks (failing (Readline 0) ConnectionResetError) TermninjaServer) 0 world0)) = []
   \<and> count_list (calls (snd (on_connection (typing ''nope'')
        (token_hooks (typing ''nope'') plain TermninjaServer) 0 world0))) (Close 0) = 1
   \<and> count_list (calls (snd (on_connection (typing ''nope'')
        (broken_hooks (typing ''nope'') plain TermninjaServer) 0 world0))) (Close 0) = 0"
proof -
  let ?F = "failing (Readline 0) ConnectionResetError"
  let ?T = "typing ''nope''"
  let ?Ha = "Server_hooks quiet TermninjaServer"
  let ?Hb = "Server_hooks ?F TermninjaServer"
  let ?Hc = "token_hooks ?T plain TermninjaServer"
  let ?Hd = "broken_hooks ?T plain TermninjaServer"
  let ?wa = "snd (on_player_connected ?Ha 0 world0)"
  let ?wa2 = "snd (on_player_accepted ?Ha 0 ?wa)"
  let ?wb = "snd (on_player_connected ?Hb 0 world0)"
  let ?wb2 = "snd (on_player_accepted ?Hb 0 ?wb)"
  let ?wc = "snd (on_player_connected ?Hc 0 world0)"
  let ?wc1 = "snd (should_accept_player ?Hc 0 ?wc)"
  let ?wd = "snd (on_player_connected ?Hd 0 world0)"
  let ?wd1 = "snd (should_accept_player ?Hd 0 ?wd)"
  have a0: "on_player_connected ?Ha 0 world0 = (Inr (), ?wa)"
    and a1: "should_accept_player ?Ha 0 ?wa = (Inr True, ?wa)"
    and a2: "on_player_accepted ?Ha 0 ?wa = (Inr (), ?wa2)"
    and a3: "player_queue ?wa2 = []"
    by (simp_all add: Server_defs io_defs quiet_simps world0_def)
  have b0: "on_player_connected ?Hb 0 world0 = (Inr (), ?wb)"
    and b1: "should_accept_player ?Hb 0 ?wb = (Inr True, ?wb)"
    and b2: "on_player_accepted ?Hb 0 ?wb = (Inl ConnectionResetError, ?wb2)"
    and b3: "player_queue ?wb2 = []"
    by (simp_all add: Server_defs io_defs failing_raises world0_def)
  have c0: "on_player_connected ?Hc 0 world0 = (Inr (), ?wc)"
    and c1: "should_accept_player ?Hc 0 ?wc = (Inr False, ?wc1)"
    and c2: "on_player_rejected ?Hc 0 ?wc1 = (Inr (), ?wc1)"
    and c3: "count_list (calls ?wc1) (Close 0) = 0"
    and c4: "raises ?T (calls ?wc1) (Close 0) \<noteq> Some ConnectionResetError"
    by (simp_all add: token_hooks_def Server_defs io_defs typing_simps world0_def
          OptionalAuthenticationMixin_should_accept_player_def)
  have d0: "on_player_connected ?Hd 0 world0 = (Inr (), ?wd)"
    and d1: "should_accept_player ?Hd 0 ?wd = (Inr False, ?wd1)"
    and d2: "on_player_rejected ?Hd 0 ?wd1 = (Inl OtherError, ?wd1)"
    and d3: "count_list (calls ?wd1) (Close 0) = 0"
    by (simp_all add: broken_hooks_def token_hooks_def raise_io_def Server_defs io_defs
          typing_simps world0_def OptionalAuthenticationMixin_should_accept_player_def)
  note A = acceptor_put_and_close [OF a0, where ?w1.0 = ?wa and ?w2.0 = ?wa2 and E = quiet,
      THEN conjunct1, THEN mp, OF a1, THEN conjunct1, THEN mp, OF a2]
  note B = acceptor_put_and_close [OF b0, where ?w1.0 = ?wb and ?w2.0 = ?wb2 and E = ?F
      and e = ConnectionResetError,
      THEN conjunct1, THEN mp, OF b1, THEN conjunct2, THEN mp, OF b2]
  note C = acceptor_put_and_close [OF c0, where ?w1.0 = ?wc1 and ?w2.0 = ?wc1 and E = ?T,
      THEN conjunct2, THEN mp, OF c1, THEN conjunct1, THEN mp, OF c2]
  note D = acceptor_put_and_close [OF d0, where ?w1.0 = ?wd1 and ?w2.0 = ?wd1 and E = ?T
      and e = OtherError,
      THEN conjunct2, THEN mp, OF d1, THEN conjunct2, THEN mp, OF d2]
  from A [THEN conjunct2, THEN conjunct2, THEN conjunct1] a3
  have 1: "count_list (player_queue (snd (on_connection quiet ?Ha 0 world0))) 0 = 1" by simp
  from B [THEN conjunct1] b3
  have 2: "player_queue (snd (on_connection ?F ?Hb 0 world0)) = []" by simp
  from C [THEN conjunct2, THEN conjunct2, THEN conjunct2, THEN mp, OF c4] c3
  have 3: "count_list (calls (snd (on_connection ?T ?Hc 0 world0))) (Close 0) = 1" by simp
  from D [THEN conjunct2] d3
  have 4: "count_list (calls (snd (on_connection ?T ?Hd 0 world0))) (Close 0) = 0" by simp
  from 1 2 3 4 show ?thesis by blast
qed

text \<open>
  C2 as stated says that a session accepted by \<open>should_accept_player\<close> is put on the
  queue, and that a rejected session is closed exactly once whatever the hook does.
  Player 1 is accepted and resets the connection while \<open>on_player_accepted\<close> reads: it
  is never put on the queue. Player 2 is rejected and its \<open>close\<close> raises
  \<open>ConnectionResetError\<close> inside the \<^verbatim>\<open>try\<close>: \<open>close\<close> is called twice. Player 3 is
  rejected and the rejected hook raises another error: \<open>close\<close> is not called.
\<close>

theorem acceptor_close_not_exactly_once:
  "fst (should_accept_player (Server_hooks (failing (Readline 1) ConnectionResetError) TermninjaServer) 1
          (snd (on_player_connected
             (Server_hooks (failing (Readline 1) ConnectionResetError) TermninjaServer) 1 world0)))
     = Inr True
   \<and> count_list (player_queue (snd (on_connection (failing (Readline 1) ConnectionResetError)
          (Server_hooks (failing (Readline 1) ConnectionResetError) TermninjaServer) 1 world0))) 1 = 0
   \<and> fst (should_accept_player
          (token_hooks (typing_failing ''nope'' (Close 2) ConnectionResetError) plain TermninjaServer) 2
          (snd (on_player_connected
             (token_hooks (typing_failing ''nope'' (Close 2) ConnectionResetError) plain TermninjaServer)
             2 world0)))
     = Inr False
   \<and> count_list (calls (snd (on_connection (typing_failing ''nope'' (Close 2) ConnectionResetError)
          (token_hooks (typing_failing ''nope'' (Close 2) ConnectionResetError) plain TermninjaServer)
          2 world0))) (Close 2) = 2
   \<and> fst (should_accept_player (broken_hooks (typing ''nope'') plain TermninjaServer) 3
          (snd (on_player_connected (broken_hooks (typing ''nope'') plain TermninjaServer) 3 world0)))
     = Inr False
   \<and> count_list (calls (snd (on_connection (typing ''nope'')
          (broken_hooks (typing ''nope'') plain TermninjaServer) 3 world0))) (Close 3) = 0"
  by (simp add: on_connection_def connection_pipeline_def accept_player_def
        broken_hooks_def token_hooks_def raise_io_def Server_defs io_defs
        OptionalAuthenticationMixin_should_accept_player_def
        failing_raises typing_failing_simps typing_simps world0_def)

subsection \<open>C6: a peer reset closes the session and the acceptor goes on\<close>




subsection \<open>C10: the base server accepts every player\<close>

text \<open>
  C10 (as amended). The \<open>should_accept_player\<close> of \<open>Server\<close> returns true for every
  player and does nothing else, so \<^verbatim>\<open>_accept_player\<close> always takes the accepted branch,
  whatever the rejected hook is: no session is rejected. A connection that survives
  the connected hook is enqueued when the accepted hook (send the continuation
  message, read a line) completes; when that hook raises, \<^verbatim>\<open>_accept_player\<close> raises the
  same exception and the session is not enqueued.
\<close>

theorem Server_accepts_every_player:
  "Server_should_accept_player p w = (Inr True, w)
   \<and> (should_accept_player H = Server_should_accept_player \<longrightarrow>
        accept_player E H p w = bind_io (on_player_accepted H p) (\<lambda>_. queue_put p) w)
   \<and> accept_player E (Server_hooks E self) p w =
       bind_io (Server_on_player_accepted E self p) (\<lambda>_. queue_put p) w
   \<and> (Server_on_player_accepted E self p w = (Inr (), w') \<longrightarrow>
        accept_player E (Server_hooks E self) p w =
          (Inr (), w'\<lparr>player_queue := player_queue w' @ [p]\<rparr>)
        \<and> (Server_on_player_connected E self p w0 = (Inr (), w) \<longrightarrow>
             on_connection E (Server_hooks E self) p w0 =
               (Inr (), w'\<lparr>player_queue := player_queue w' @ [p]\<rparr>)))
   \<and> (Server_on_player_accepted E self p w = (Inl e, w') \<longrightarrow>
        accept_player E (Server_hooks E self) p w = (Inl e, w'))"
  by (simp add: accept_player_def Server_hooks_def Server_should_accept_player_def
        returns_def bind_io_def queue_put_def on_connection_def connection_pipeline_def)

text \<open>With no call raising, player 4 is welcomed, prompted, read and enqueued.\<close>

theorem Server_accepts_every_player_witness:
  "on_connection quiet (Server_hooks quiet TermninjaServer) 4 world0 =
     (Inr (), world0\<lparr>calls := [Send 4 (welcome_message TermninjaServer),
                                Send 4 (continuation_message TermninjaServer), Readline 4],
                      player_queue := [4]\<rparr>)"
proof -
  let ?H = "Server_hooks quiet TermninjaServer"
  let ?w = "world0\<lparr>calls := [Send 4 (welcome_message TermninjaServer)]\<rparr>"
  let ?w' = "world0\<lparr>calls := [Send 4 (welcome_message TermninjaServer),
                                Send 4 (continuation_message TermninjaServer), Readline 4]\<rparr>"
  have c: "Server_on_player_connected quiet TermninjaServer 4 world0 = (Inr (), ?w)"
    by (simp add: Server_defs io_defs quiet_simps world0_def)
  have a: "Server_on_player_accepted quiet TermninjaServer 4 ?w = (Inr (), ?w')"
    by (simp add: Server_defs io_defs quiet_simps world0_def)
  have q: "?w'\<lparr>player_queue := player_queue ?w' @ [4]\<rparr> =
     world0\<lparr>calls := [Send 4 (welcome_message TermninjaServer),
                                Send 4 (continuation_message TermninjaServer), Readline 4],
                      player_queue := [4]\<rparr>"
    by (simp add: world0_def)
  from Server_accepts_every_player
    [where p = 4 and w = ?w and E = quiet and self = TermninjaServer and w' = ?w'
       and ?w0.0 = world0 and H = ?H,
     THEN conjunct2, THEN conjunct2, THEN conjunct2, THEN conjunct1, rule_format, OF a,
     THEN conjunct2, rule_format, OF c] q
  show ?thesis by simp
qed

text \<open>
  C10 as stated says that every connection that survives the connected hook is
  enqueued. Player 5 survives the connected hook and is accepted by
  \<open>should_accept_player\<close>, then resets the connection while \<open>on_player_accepted\<close> reads
  the confirmation line: the session is never put on the queue.
\<close>

theorem Server_hangup_not_enqueued:
  "fst (Server_on_player_connected (failing (Readline 5) ConnectionResetError) TermninjaServer 5 world0) = Inr ()
   \<and> fst (Server_should_accept_player 5
          (snd (Server_on_player_connected (failing (Readline 5) ConnectionResetError) TermninjaServer 5 world0))) = Inr True
   \<and> player_queue (snd (on_connection (failing (Readline 5) ConnectionResetError)
        (Server_hooks (failing (Readline 5) ConnectionResetError) TermninjaServer) 5 world0)) = []"
  by (simp add: on_connection_def connection_pipeline_def accept_player_def
        Server_defs io_defs failing_raises world0_def)

subsection \<open>C5: the four outcomes of the optional authentication\<close>

text \<open>
  C5. As long as no call on the stream or into the persistence service raises, the
  \<open>should_accept_player\<close> of the authentication mixin sends the prompt, reads a line and
  then: on an empty line returns true without looking anything up or attaching an
  identity; on a non-empty token that the persistence service does not know, sends the
  rejected message and returns false; on a token whose user's expiry timestamp is before
  now, sends the expired message and returns false, attaching no identity; on a token
  whose user has not expired, sends the accepted message, attaches the user to the
  session and returns true.
\<close>

theorem should_accept_player_token:
  assumes "\<forall>h c. raises E h c = None"
  shows "let h1 = calls w @ [Send p enter_token_prompt];
             token = line E h1 p;
             h2 = h1 @ [Readline p];
             h3 = h2 @ [SelectByPlayToken token];
             r = OptionalAuthenticationMixin_should_accept_player E C p w
         in (token = [] \<longrightarrow> r = (Inr True, w\<lparr>calls := h2\<rparr>))
          \<and> (token \<noteq> [] \<longrightarrow> users E token = None \<longrightarrow>
               r = (Inr False, w\<lparr>calls := h3 @ [Send p (token_rejected_message C)]\<rparr>))
          \<and> (\<forall>u. token \<noteq> [] \<longrightarrow> users E token = Some u \<longrightarrow>
                 play_token_expires_at u < clock E h3 \<longrightarrow>
               r = (Inr False, w\<lparr>calls := h3 @ [Send p (token_expired_message C)]\<rparr>))
          \<and> (\<forall>u. token \<noteq> [] \<longrightarrow> users E token = Some u \<longrightarrow>
                 \<not> play_token_expires_at u < clock E h3 \<longrightarrow>
               r = (Inr True, w\<lparr>calls := h3 @ [Send p (token_accepted_message C)],
                                 db_user := (db_user w)(p \<mapsto> u)\<rparr>))"
  using assms
  by (simp add: OptionalAuthenticationMixin_should_accept_player_def io_defs Let_def)

text \<open>
  The four cases: an empty line, the unknown token \<open>nope\<close>, the token of alice (expiry
  100) read at time 200, and read at time 50.
\<close>

theorem should_accept_player_token_witness:
  "fst (OptionalAuthenticationMixin_should_accept_player quiet plain 0 world0) = Inr True
   \<and> db_user (snd (OptionalAuthenticationMixin_should_accept_player quiet plain 0 world0)) 0 = None
   \<and> OptionalAuthenticationMixin_should_accept_player (typing ''nope'') plain 0 world0 =
       (Inr False, world0\<lparr>calls := [Send 0 enter_token_prompt, Readline 0,
          SelectByPlayToken ''nope'', Send 0 (token_rejected_message plain)]\<rparr>)
   \<and> OptionalAuthenticationMixin_should_accept_player (registered ''tok'' alice 200) plain 0 world0 =
       (Inr False, world0\<lparr>calls := [Send 0 enter_token_prompt, Readline 0,
          SelectByPlayToken ''tok'', Send 0 (token_expired_message plain)]\<rparr>)
   \<and> fst (OptionalAuthenticationMixin_should_accept_player (registered ''tok'' alice 50) plain 0 world0)
       = Inr True
   \<and> db_user (snd (OptionalAuthenticationMixin_should_accept_player
         (registered ''tok'' alice 50) plain 0 world0)) 0 = Some alice
   \<and> calls (snd (OptionalAuthenticationMixin_should_accept_player
         (registered ''tok'' alice 50) plain 0 world0)) =
       [Send 0 enter_token_prompt, Readline 0, SelectByPlayToken ''tok'',
        Send 0 (token_accepted_message plain)]"
proof -
  have q: "\<forall>h c. raises quiet h c = None" by (simp add: quiet_simps)
  have t: "\<forall>h c. raises (typing ''nope'') h c = None" by (simp add: typing_simps)
  have e: "\<forall>h c. raises (registered ''tok'' alice 200) h c = None"
    by (simp add: registered_simps)
  have v: "\<forall>h c. raises (registered ''tok'' alice 50) h c = None"
    by (simp add: registered_simps)
  have c0: "calls world0 = []" by (simp add: world0_def)
  from should_accept_player_token [OF q, of world0 0 plain]
  have 1: "OptionalAuthenticationMixin_should_accept_player quiet plain 0 world0 =
      (Inr True, world0\<lparr>calls := [Send 0 enter_token_prompt, Readline 0]\<rparr>)"
    by (simp add: Let_def quiet_simps c0)
  from should_accept_player_token [OF t, of world0 0 plain]
  have 2: "OptionalAuthenticationMixin_should_accept_player (typing ''nope'') plain 0 world0 =
       (Inr False, world0\<lparr>calls := [Send 0 enter_token_prompt, Readline 0,
          SelectByPlayToken ''nope'', Send 0 (token_rejected_message plain)]\<rparr>)"
    by (simp add: Let_def typing_simps c0)
  from should_accept_player_token [OF e, of world0 0 plain]
  have 3: "OptionalAuthenticationMixin_should_accept_player (registered ''tok'' alice 200) plain 0 world0 =
       (Inr False, world0\<lparr>calls := [Send 0 enter_token_prompt, Readline 0,
          SelectByPlayToken ''tok'', Send 0 (token_expired_message plain)]\<rparr>)"
    by (simp add: Let_def registered_simps c0 alice_def)
  from should_accept_player_token [OF v, of world0 0 plain]
  have 4: "OptionalAuthenticationMixin_should_accept_player (registered ''tok'' alice 50) plain 0 world0 =
       (Inr True, world0\<lparr>calls := [Send 0 enter_token_prompt, Readline 0,
          SelectByPlayToken ''tok'', Send 0 (token_accepted_message plain)],
          db_user := (db_user world0)(0 \<mapsto> alice)\<rparr>)"
    by (simp add: Let_def registered_simps c0 alice_def)
  show ?thesis
    unfolding 1 2 3 4 by (simp add: world0_def)
qed

subsection \<open>C9: an anonymous player is accepted without a lookup\<close>

text \<open>
  C9. When the prompt is sent and the line read is empty, the hook returns true and
  its only calls are that send and that read: \<open>select_by_play_token\<close> is not called, and
  the outcome is the same for any two contents \<open>U\<close>, \<open>U'\<close> of the users table.
\<close>

theorem anonymous_accept_ignores_users:
  assumes "raises E (calls w) (Send p enter_token_prompt) = None"
      and "raises E (calls w @ [Send p enter_token_prompt]) (Readline p) = None"
      and "line E (calls w @ [Send p enter_token_prompt]) p = []"
  shows "OptionalAuthenticationMixin_should_accept_player (E\<lparr>users := U\<rparr>) C p w =
           (Inr True, w\<lparr>calls := calls w @ [Send p enter_token_prompt, Readline p]\<rparr>)
         \<and> OptionalAuthenticationMixin_should_accept_player (E\<lparr>users := U\<rparr>) C p w =
           OptionalAuthenticationMixin_should_accept_player (E\<lparr>users := U'\<rparr>) C p w
         \<and> filter (\<lambda>c. \<exists>t. c = SelectByPlayToken t)
              (calls (snd (OptionalAuthenticationMixin_should_accept_player (E\<lparr>users := U\<rparr>) C p w)))
           = filter (\<lambda>c. \<exists>t. c = SelectByPlayToken t) (calls w)"
  using assms
  by (simp add: OptionalAuthenticationMixin_should_accept_player_def io_defs)

text \<open>An empty line, with alice registered and with no user registered.\<close>

theorem anonymous_accept_ignores_users_witness:
  "OptionalAuthenticationMixin_should_accept_player (quiet\<lparr>users := [''tok'' \<mapsto> alice]\<rparr>) plain 0 world0
     = (Inr True, world0\<lparr>calls := [Send 0 enter_token_prompt, Readline 0]\<rparr>)
   \<and> OptionalAuthenticationMixin_should_accept_player (quiet\<lparr>users := [''tok'' \<mapsto> alice]\<rparr>) plain 0 world0
     = OptionalAuthenticationMixin_should_accept_player (quiet\<lparr>users := Map.empty\<rparr>) plain 0 world0"
proof -
  have a: "raises quiet (calls world0) (Send 0 enter_token_prompt) = None"
    and b: "raises quiet (calls world0 @ [Send 0 enter_token_prompt]) (Readline 0) = None"
    and c: "line quiet (calls world0 @ [Send 0 enter_token_prompt]) 0 = []"
    by (simp_all add: quiet_simps)
  note r = anonymous_accept_ignores_users [OF a b c, of "[''tok'' \<mapsto> alice]" plain Map.empty]
  from r [THEN conjunct1]
  have "OptionalAuthenticationMixin_should_accept_player
          (quiet\<lparr>users := [''tok'' \<mapsto> alice]\<rparr>) plain 0 world0
        = (Inr True, world0\<lparr>calls := [Send 0 enter_token_prompt, Readline 0]\<rparr>)"
    by (simp add: world0_def)
  with r [THEN conjunct2, THEN conjunct1] show ?thesis by blast
qed

subsection \<open>C3: launching a batch\<close>

lemma launch_game_AttributeError:
  "get_friendly_name self = None \<Longrightarrow> launch_game self players w = (Inl AttributeError, w)"
  by (simp add: launch_game_def)

lemma get_server_name_resolution:
  "get_server_name (self\<lparr>friendly_name := Some n\<rparr>) = n"
  "get_server_name (self\<lparr>friendly_name := None\<rparr>) = class_name self"
  by (simp_all add: get_server_name_def)

text \<open>
  C3. \<^verbatim>\<open>_launch_game\<close> asks the server for \<^verbatim>\<open>self.get_friendly_name()\<close>, a method that
  no class of \<^verbatim>\<open>server.py\<close> defines (the method that resolves the display name is
  \<open>get_server_name\<close>). For the \<open>TermninjaServer\<close> and a batch of one session the launch
  task raises \<open>AttributeError\<close> before the controller is constructed: no task for
  \<^verbatim>\<open>controller.start()\<close> is created.
\<close>

theorem launch_game_constructs_no_controller:
  "launch_game TermninjaServer [7] world0 = (Inl AttributeError, world0)
   \<and> tasks (snd (launch_game TermninjaServer [7] world0)) = []
   \<and> get_server_name TermninjaServer = ''TermninjaServer''"
  by (simp add: launch_game_def TermninjaServer_def world0_def get_server_name_def)

subsection \<open>C4: the teardown and the cancellation\<close>

text \<open>
  C4 (as amended). Once the initialization has returned, however the work inside the
  \<^verbatim>\<open>try\<close> of \<^verbatim>\<open>_start_serving\<close> ends (it returns, it is cancelled, or a core task
  fails), the disconnect from the persistence service is called exactly once, as the
  last call. When that disconnect returns, a \<open>CancelledError\<close> of the work is absorbed
  (\<^verbatim>\<open>_start_serving\<close> returns normally) and every other outcome is passed on; when the
  disconnect itself raises (it is cancelled, for one), \<^verbatim>\<open>_start_serving\<close> raises that
  exception. When the connect of the initialization raises, \<^verbatim>\<open>_start_serving\<close> raises
  the same exception and the disconnect is not called.
\<close>

theorem start_serving_teardown:
  assumes "serving E H w = (r, w')"
  shows "calls (snd (try_serving E H w)) = calls w' @ [DbDisconnect]
     \<and> count_list (calls (snd (try_serving E H w))) DbDisconnect
         = count_list (calls w') DbDisconnect + 1
     \<and> (raises E (calls w') DbDisconnect = None \<longrightarrow>
          fst (try_serving E H w) = (case r of Inl CancelledError \<Rightarrow> Inr () | _ \<Rightarrow> r))
     \<and> (raises E (calls w') DbDisconnect = None \<longrightarrow> r = Inl CancelledError \<longrightarrow>
          fst (try_serving E H w) = Inr ())
     \<and> (register_signal_handlers w0 = (Inr (), wa) \<longrightarrow> initialize E wa = (Inr (), w) \<longrightarrow>
          start_serving E H w0 = try_serving E H w)
     \<and> (raises E (calls w') DbDisconnect = Some e' \<longrightarrow> fst (try_serving E H w) = Inl e')
     \<and> (raises E (calls v0) DbConnect = Some e \<longrightarrow>
          fst (start_serving E H v0) = Inl e
          \<and> calls (snd (start_serving E H v0)) = calls v0 @ [DbConnect])"
  using assms
  by (auto simp: try_serving_def teardown_def perform_def start_serving_def bind_io_def
        initialize_def register_signal_handlers_def split: option.splits)

text \<open>
  The server is cancelled while it waits for its core tasks; a core task fails with
  another error; the connect fails; the disconnect fails.
\<close>

theorem start_serving_teardown_witness:
  "fst (start_serving (failing Gather CancelledError)
          (Server_hooks (failing Gather CancelledError) TermninjaServer) world0) = Inr ()
   \<and> calls (snd (start_serving (failing Gather CancelledError)
          (Server_hooks (failing Gather CancelledError) TermninjaServer) world0))
       = [DbConnect, Gather, DbDisconnect]
   \<and> fst (start_serving (failing Gather OtherError)
          (Server_hooks (failing Gather OtherError) TermninjaServer) world0) = Inl OtherError
   \<and> calls (snd (start_serving (failing Gather OtherError)
          (Server_hooks (failing Gather OtherError) TermninjaServer) world0))
       = [DbConnect, Gather, DbDisconnect]
   \<and> fst (start_serving (failing DbConnect OtherError)
          (Server_hooks (failing DbConnect OtherError) TermninjaServer) world0) = Inl OtherError
   \<and> calls (snd (start_serving (failing DbConnect OtherError)
          (Server_hooks (failing DbConnect OtherError) TermninjaServer) world0)) = [DbConnect]
   \<and> fst (try_serving (failing DbDisconnect OtherError)
          (Server_hooks (failing DbDisconnect OtherError) TermninjaServer) world0) = Inl OtherError"
proof -
  have main: "fst (start_serving (failing Gather e) (Server_hooks (failing Gather e) TermninjaServer) world0)
        = (if e = CancelledError then Inr () else Inl e)
      \<and> calls (snd (start_serving (failing Gather e)
            (Server_hooks (failing Gather e) TermninjaServer) world0))
        = [DbConnect, Gather, DbDisconnect]" for e
  proof -
    let ?E = "failing Gather e"
    let ?H = "Server_hooks ?E TermninjaServer"
    let ?wa = "snd (register_signal_handlers world0)"
    let ?w = "snd (initialize ?E ?wa)"
    let ?w' = "snd (serving ?E ?H ?w)"
    have a: "register_signal_handlers world0 = (Inr (), ?wa)"
      by (simp add: register_signal_handlers_def)
    have b: "initialize ?E ?wa = (Inr (), ?w)"
      by (simp add: initialize_def io_defs failing_raises)
    have c: "serving ?E ?H ?w = (Inl e, ?w')"
      by (simp add: serving_def Server_defs io_defs failing_raises)
    have d: "calls ?w' = [DbConnect, Gather]"
      by (simp add: serving_def Server_defs io_defs failing_raises initialize_def
            register_signal_handlers_def world0_def)
    have q: "raises ?E (calls ?w') DbDisconnect = None" by (simp add: failing_raises)
    note t = start_serving_teardown [OF c, where ?w0.0 = world0 and wa = ?wa]
    from t [THEN conjunct2, THEN conjunct2, THEN conjunct2, THEN conjunct2, THEN conjunct1,
            rule_format, OF a b]
    have e: "start_serving ?E ?H world0 = try_serving ?E ?H ?w" .
    from t [THEN conjunct1] d
    have "calls (snd (try_serving ?E ?H ?w)) = [DbConnect, Gather, DbDisconnect]" by simp
    moreover from t [THEN conjunct2, THEN conjunct2, THEN conjunct1, rule_format, OF q]
    have "fst (try_serving ?E ?H ?w) = (if e = CancelledError then Inr () else Inl e)"
      by (cases e) simp_all
    ultimately show ?thesis unfolding e by blast
  qed
  let ?I = "failing DbConnect OtherError"
  let ?D = "failing DbDisconnect OtherError"
  have ci: "serving ?I (Server_hooks ?I TermninjaServer) world0
      = (fst (serving ?I (Server_hooks ?I TermninjaServer) world0),
         snd (serving ?I (Server_hooks ?I TermninjaServer) world0))" by simp
  have ri: "raises ?I (calls world0) DbConnect = Some OtherError" by (simp add: failing_raises)
  from start_serving_teardown [OF ci, where ?v0.0 = world0 and e = OtherError,
      THEN conjunct2, THEN conjunct2, THEN conjunct2, THEN conjunct2, THEN conjunct2,
      THEN conjunct2, THEN mp, OF ri]
  have init: "fst (start_serving ?I (Server_hooks ?I TermninjaServer) world0) = Inl OtherError
     \<and> calls (snd (start_serving ?I (Server_hooks ?I TermninjaServer) world0)) = [DbConnect]"
    by (simp add: world0_def)
  have cd: "serving ?D (Server_hooks ?D TermninjaServer) world0
      = (fst (serving ?D (Server_hooks ?D TermninjaServer) world0),
         snd (serving ?D (Server_hooks ?D TermninjaServer) world0))" by simp
  have rd: "raises ?D (calls (snd (serving ?D (Server_hooks ?D TermninjaServer) world0))) DbDisconnect
      = Some OtherError" by (simp add: failing_raises)
  from start_serving_teardown [OF cd, where e' = OtherError,
      THEN conjunct2, THEN conjunct2, THEN conjunct2, THEN conjunct2, THEN conjunct2,
      THEN conjunct1, THEN mp, OF rd]
  have down: "fst (try_serving ?D (Server_hooks ?D TermninjaServer) world0) = Inl OtherError" .
  from main [of CancelledError] main [of OtherError] init down show ?thesis by simp
qed

text \<open>
  C4 as stated says that the cancellation is never surfaced and that the teardown
  always runs. Cancelled while it connects to the persistence service,
  \<^verbatim>\<open>_start_serving\<close> raises \<open>CancelledError\<close> and never calls the disconnect. Cancelled
  while it waits for its core tasks and again while it awaits the disconnect, it raises
  \<open>CancelledError\<close>.
\<close>

theorem cancellation_surfaced_or_no_teardown:
  "fst (start_serving (cancelled_at [DbConnect])
          (Server_hooks (cancelled_at [DbConnect]) TermninjaServer) world0) = Inl CancelledError
   \<and> calls (snd (start_serving (cancelled_at [DbConnect])
          (Server_hooks (cancelled_at [DbConnect]) TermninjaServer) world0)) = [DbConnect]
   \<and> fst (start_serving (cancelled_at [Gather, DbDisconnect])
          (Server_hooks (cancelled_at [Gather, DbDisconnect]) TermninjaServer) world0)
       = Inl CancelledError
   \<and> calls (snd (start_serving (cancelled_at [Gather, DbDisconnect])
          (Server_hooks (cancelled_at [Gather, DbDisconnect]) TermninjaServer) world0))
       = [DbConnect, Gather, DbDisconnect]"
  by (simp add: start_serving_def try_serving_def serving_def teardown_def initialize_def
        register_signal_handlers_def Server_defs io_defs cancelled_at_raises world0_def)

subsection \<open>C7: the stop signals\<close>

lemma tasks_handle_stop_signal: "tasks (handle_stop_signal x v) = map cancel (tasks v)"
  by (simp add: handle_stop_signal_def all_tasks_def cancel_def)

lemma tasks_deliver_cancellations:
  "tasks (deliver_cancellations v) = map throw_cancelled (tasks v)"
  by (simp add: deliver_cancellations_def)

text \<open>
  C7 (as amended). \<open>SIGINT\<close> and \<open>SIGTERM\<close> are handled by the same transition: the
  cancellation of every task that has not finished is requested, and nothing else
  changes. A second signal that arrives before any task has run changes nothing more.
\<close>

theorem handle_stop_signal_cancels_all:
  "handle_stop_signal SIGINT w = handle_stop_signal SIGTERM w
   \<and> receive_signal s (snd (register_signal_handlers w)) =
       handle_stop_signal s (snd (register_signal_handlers w))
   \<and> list_all (\<lambda>t. finished t \<or> cancel_requested t) (tasks (handle_stop_signal s w))
   \<and> map coro (tasks (handle_stop_signal s w)) = map coro (tasks w)
   \<and> map finished (tasks (handle_stop_signal s w)) = map finished (tasks w)
   \<and> handle_stop_signal s' (handle_stop_signal s w) = handle_stop_signal s w"
proof -
  have h: "tasks (handle_stop_signal x v) = map cancel (tasks v)" for x v
    by (simp add: handle_stop_signal_def all_tasks_def cancel_def)
  have hw: "handle_stop_signal x v = v\<lparr>tasks := map cancel (tasks v)\<rparr>" for x v
    using h [of x v] by (simp add: handle_stop_signal_def)
  have cc: "cancel (cancel t) = cancel t" for t by (simp add: cancel_def)
  have 1: "handle_stop_signal SIGINT w = handle_stop_signal SIGTERM w" by (simp add: hw)
  have 2: "receive_signal s (snd (register_signal_handlers w)) =
       handle_stop_signal s (snd (register_signal_handlers w))"
    by (cases s) (simp_all add: receive_signal_def register_signal_handlers_def hw)
  have 3: "list_all (\<lambda>t. finished t \<or> cancel_requested t) (tasks (handle_stop_signal s w))"
    by (auto simp: h list_all_iff cancel_def)
  have 4: "map coro (tasks (handle_stop_signal s w)) = map coro (tasks w)"
    "map finished (tasks (handle_stop_signal s w)) = map finished (tasks w)"
    by (simp_all add: h cancel_def comp_def)
  have 5: "handle_stop_signal s' (handle_stop_signal s w) = handle_stop_signal s w"
    by (simp add: hw cc comp_def)
  from 1 2 3 4 5 show ?thesis by blast
qed

text \<open>
  C7 as stated says that a second signal during the shutdown is a no-op. After
  \<open>SIGTERM\<close>, once every task has received its \<open>CancelledError\<close>, the other tasks have
  finished and \<^verbatim>\<open>_start_serving\<close> is suspended in \<^verbatim>\<open>await self._teardown()\<close>. A
  \<open>SIGINT\<close> then requests the cancellation of that task again; delivered, it ends the
  task inside its \<^verbatim>\<open>finally\<close>.
\<close>

theorem second_signal_recancels_teardown:
  "tasks (deliver_cancellations (receive_signal SIGTERM serving_world)) =
     \<lparr>coro = StartServing TearingDown, cancel_requested = False, finished = False\<rparr>
     # map (\<lambda>c. \<lparr>coro = c, cancel_requested = False, finished = True\<rparr>)
         [ServerTask, StartGameTask, UpdateDatabaseTask]
   \<and> receive_signal SIGINT (deliver_cancellations (receive_signal SIGTERM serving_world))
       \<noteq> deliver_cancellations (receive_signal SIGTERM serving_world)
   \<and> hd (tasks (receive_signal SIGINT
         (deliver_cancellations (receive_signal SIGTERM serving_world)))) =
       \<lparr>coro = StartServing TearingDown, cancel_requested = True, finished = False\<rparr>
   \<and> hd (tasks (deliver_cancellations (receive_signal SIGINT
         (deliver_cancellations (receive_signal SIGTERM serving_world))))) =
       \<lparr>coro = StartServing TearingDown, cancel_requested = False, finished = True\<rparr>"
proof -
  have t1: "tasks (deliver_cancellations (receive_signal SIGTERM serving_world)) =
     \<lparr>coro = StartServing TearingDown, cancel_requested = False, finished = False\<rparr>
     # map (\<lambda>c. \<lparr>coro = c, cancel_requested = False, finished = True\<rparr>)
         [ServerTask, StartGameTask, UpdateDatabaseTask]"
    by (simp add: serving_world_def world0_def receive_signal_def handle_stop_signal_def
          all_tasks_def cancel_def new_task_def deliver_cancellations_def throw_cancelled_def)
  have h: "signal_handlers (deliver_cancellations (receive_signal SIGTERM serving_world)) SIGINT
      = Some SIGINT"
    by (simp add: serving_world_def world0_def receive_signal_def handle_stop_signal_def
          deliver_cancellations_def)
  have t2: "tasks (receive_signal SIGINT (deliver_cancellations (receive_signal SIGTERM serving_world)))
     = \<lparr>coro = StartServing TearingDown, cancel_requested = True, finished = False\<rparr>
     # map (\<lambda>c. \<lparr>coro = c, cancel_requested = False, finished = True\<rparr>)
         [ServerTask, StartGameTask, UpdateDatabaseTask]"
    unfolding receive_signal_def [of SIGINT] h option.case tasks_handle_stop_signal t1
    by (simp add: cancel_def)
  have ne: "receive_signal SIGINT (deliver_cancellations (receive_signal SIGTERM serving_world))
       \<noteq> deliver_cancellations (receive_signal SIGTERM serving_world)"
  proof
    assume "receive_signal SIGINT (deliver_cancellations (receive_signal SIGTERM serving_world))
       = deliver_cancellations (receive_signal SIGTERM serving_world)"
    then have "tasks (receive_signal SIGINT (deliver_cancellations (receive_signal SIGTERM serving_world)))
       = tasks (deliver_cancellations (receive_signal SIGTERM serving_world))" by simp
    then show False unfolding t1 t2 by simp
  qed
  have t3: "hd (tasks (deliver_cancellations (receive_signal SIGINT
         (deliver_cancellations (receive_signal SIGTERM serving_world))))) =
       \<lparr>coro = StartServing TearingDown, cancel_requested = False, finished = True\<rparr>"
    unfolding tasks_deliver_cancellations [of "receive_signal SIGINT _"] t2
    by (simp add: throw_cancelled_def)
  from t1 t2 ne t3 show ?thesis by simp
qed

subsection \<open>C8: the heartbeat\<close>

text \<open>
  C8. The \<open>on_server_started\<close> of the heartbeat mixin creates one task for
  \<^verbatim>\<open>_update_database_task\<close> and calls the next \<open>on_server_started\<close> once, on the world
  with that task added; it makes no call of the loop itself. The task computes the slug
  of the display name, upserts the record once and then, for as long as no call raises,
  goes on pinging the record under that slug and sleeping for the configured interval:
  after any number of rounds it is still running.
\<close>

theorem heartbeat_started:
  "PingDatabaseMixin_on_server_started super w =
     on_server_started super
       (w\<lparr>tasks := tasks w @ [\<lparr>coro = UpdateDatabaseTask, cancel_requested = False,
                                finished = False\<rparr>]\<rparr>)
   \<and> ((\<forall>h c. raises E h c = None) \<longrightarrow>
        update_database_task E self n w =
          (None, w\<lparr>calls := calls w @
             CreateOrUpdateGame (slugify E (get_server_name self))
               (get_server_name self, description self, port self)
             # concat (replicate n [UpdateGame (slugify E (get_server_name self)),
                                   Sleep (ping_database_interval self)])\<rparr>))"
  by (simp add: PingDatabaseMixin_on_server_started_def create_task_def bind_io_def
        update_database_task_def perform_def ping_loop_quiet Let_def)

text \<open>The first two rounds of the heartbeat of the \<open>TermninjaServer\<close>.\<close>

theorem heartbeat_started_witness:
  "PingDatabaseMixin_on_server_started (Server_hooks quiet TermninjaServer) world0 =
     (Inr (), world0\<lparr>tasks := [\<lparr>coro = UpdateDatabaseTask, cancel_requested = False,
                                   finished = False\<rparr>]\<rparr>)
   \<and> update_database_task quiet TermninjaServer 2 world0 =
     (None, world0\<lparr>calls :=
        [CreateOrUpdateGame ''TermninjaServer'' (''TermninjaServer'', [], 3000),
         UpdateGame ''TermninjaServer'', Sleep 120,
         UpdateGame ''TermninjaServer'', Sleep 120]\<rparr>)"
proof -
  have q: "\<forall>h c. raises quiet h c = None" by (simp add: quiet_simps)
  note r = heartbeat_started [where super = "Server_hooks quiet TermninjaServer"
      and w = world0 and E = quiet and self = TermninjaServer and n = 2]
  from r [THEN conjunct1]
  have 1: "PingDatabaseMixin_on_server_started (Server_hooks quiet TermninjaServer) world0 =
     (Inr (), world0\<lparr>tasks := [\<lparr>coro = UpdateDatabaseTask, cancel_requested = False,
                                   finished = False\<rparr>]\<rparr>)"
    by (simp add: Server_defs returns_def world0_def)
  from r [THEN conjunct2, THEN mp, OF q]
  have 2: "update_database_task quiet TermninjaServer 2 world0 =
     (None, world0\<lparr>calls :=
        [CreateOrUpdateGame ''TermninjaServer'' (''TermninjaServer'', [], 3000),
         UpdateGame ''TermninjaServer'', Sleep 120,
         UpdateGame ''TermninjaServer'', Sleep 120]\<rparr>)"
    by (simp add: quiet_def get_server_name_def TermninjaServer_def world0_def
          eval_nat_numeral)
  from 1 2 show ?thesis by blast
qed

end
